theory Spec2Isabelle
  imports Complex_Main "HOL-Library.Log_Nat"
begin

section \<open>Exceptions\<close>

text \<open>
  Every Python exception that the modelled code can raise is a value. A computation that
  may raise returns \<open>exc + 'a\<close>, with \<open>Inl\<close> for the raised exception.
  \<open>ExternalError\<close> stands for any exception raised inside an external collaborator
  (vector store, tokenizer, question-answering model); it carries the text of \<open>str(e)\<close>.
\<close>

datatype exc =
    KeyError string
  | ValueError string
  | IndexError
  | ZeroDivisionError
  | ExternalError string

text \<open>
  \<open>str(e)\<close>. For a \<open>KeyError\<close> Python prints the \<open>repr\<close> of the missing key, which
  for a key without quotes or escapes is the key between single quotes.
\<close>

fun str_exc :: "exc \<Rightarrow> string" where
  "str_exc (KeyError k) = [CHR 0x27] @ k @ [CHR 0x27]"
| "str_exc (ValueError m) = m"
| "str_exc IndexError = ''index out of range''"
| "str_exc ZeroDivisionError = ''division by zero''"
| "str_exc (ExternalError m) = m"

section \<open>Strings\<close>

text \<open>
  Strings are sequences of ASCII characters. \<open>isspace\<close> is Python's \<open>str.isspace\<close> on
  that range (tab, line feed, vertical tab, form feed, carriage return, the four
  separators 0x1C to 0x1F and the blank); \<open>lower_char\<close> is \<open>str.lower\<close> on one
  character.
\<close>

definition isspace :: "char \<Rightarrow> bool" where
  "isspace c = (let n = (of_char c :: nat) in (9 \<le> n \<and> n \<le> 13) \<or> (28 \<le> n \<and> n \<le> 32))"

definition lower_char :: "char \<Rightarrow> char" where
  "lower_char c = (let n = (of_char c :: nat) in if 65 \<le> n \<and> n \<le> 90 then char_of (n + 32) else c)"

definition lower :: "string \<Rightarrow> string" where
  "lower s = map lower_char s"

definition strip :: "string \<Rightarrow> string" where
  "strip s = rev (dropWhile isspace (rev (dropWhile isspace s)))"

definition replace :: "char \<Rightarrow> char \<Rightarrow> string \<Rightarrow> string" where
  "replace old new s = map (\<lambda>c. if c = old then new else c) s"

text \<open>\<open>s.split(sep)\<close> for a one-character separator: one more part than separators.\<close>

fun split :: "char \<Rightarrow> string \<Rightarrow> string list" where
  "split sep [] = [[]]"
| "split sep (c # cs) =
     (if c = sep then [] # split sep cs
      else (case split sep cs of
              p # ps \<Rightarrow> (c # p) # ps
            | [] \<Rightarrow> [[c]]))"

fun join :: "string \<Rightarrow> string list \<Rightarrow> string" where
  "join sep [] = []"
| "join sep [x] = x"
| "join sep (x # y # ys) = x @ sep @ join sep (y # ys)"

section \<open>Answer similarity and rationale generation\<close>

text \<open>
  \<^verbatim>\<open>common = sum(1 for a, b in zip(str1.lower(), str2.lower()) if a == b)\<close>
\<close>

definition common :: "string \<Rightarrow> string \<Rightarrow> nat" where
  "common str1 str2 = sum_list [1. (a, b) \<leftarrow> zip (lower str1) (lower str2), a = b]"

text \<open>
  \<open>_similar_strings\<close>. The quotient is Python's true division; the longer length is at
  least 10 where it is evaluated, so it never divides by zero.
\<close>

definition similar_strings :: "string \<Rightarrow> string \<Rightarrow> real \<Rightarrow> bool" where
  "similar_strings str1 str2 threshold =
     (if length str1 < 10 \<or> length str2 < 10 then False
      else real (common str1 str2) / real (max (length str1) (length str2)) > threshold)"

text \<open>The default value of the parameter \<open>threshold\<close>.\<close>

definition default_threshold :: real where
  "default_threshold = 0.7"

text \<open>
  The deduplication loop of \<open>_generate_rationale\<close>: an answer is appended to
  \<open>unique_answers\<close> unless it is similar to an answer already there.
\<close>

fun dedup_loop :: "string list \<Rightarrow> string list \<Rightarrow> string list" where
  "dedup_loop [] unique_answers = unique_answers"
| "dedup_loop (ans # rest) unique_answers =
     dedup_loop rest
       (if \<not> list_ex (\<lambda>existing. similar_strings ans existing default_threshold) unique_answers
        then unique_answers @ [ans] else unique_answers)"

definition unique_answers :: "string list \<Rightarrow> string list" where
  "unique_answers answers = dedup_loop answers []"

definition conference_contexts :: "(string \<times> string) list" where
  "conference_contexts =
   [(''TMLR'', ''TMLR is a machine learning research conference focusing on theoretical advances, algorithms, and methodological innovations in machine learning.''),
    (''CVPR'', ''CVPR is a premier computer vision conference focusing on visual processing, recognition, understanding, and generation.''),
    (''EMNLP'', ''EMNLP is a natural language processing conference focusing on computational linguistics, language understanding, and text processing.''),
    (''NeurIPS'', ''NeurIPS is a conference focusing on neural information processing systems, machine learning theory, and artificial intelligence.''),
    (''KDD'', ''KDD is a conference focusing on data mining, knowledge discovery, and large-scale data analytics.'')]"

text \<open>
  The title and the abstract derived from the preview. The source wraps the two
  \<open>split\<close> expressions in a bare \<open>try/except\<close>; the only failure they could have is
  the index \<open>[0]\<close> on an empty list, which is the second branch here.
\<close>

definition title_abstract :: "string \<Rightarrow> string \<times> string" where
  "title_abstract content_preview =
     (case split (CHR ''.'') content_preview of
        t # rest \<Rightarrow> (t, join '' '' (take 2 rest))
      | [] \<Rightarrow> (take 100 content_preview, take 400 (drop 100 content_preview)))"

definition make_context :: "string \<Rightarrow> string \<Rightarrow> string \<Rightarrow> string" where
  "make_context title abstract info =
     ''Paper Title: '' @ title @ [CHR 0x0A] @
     ''Abstract: '' @ abstract @ [CHR 0x0A, CHR 0x0A] @
     ''Conference Information: '' @ info @ [CHR 0x0A, CHR 0x0A] @
     ''A paper is relevant to a conference if its technical contributions and research focus align with the conference's main themes. '' @
     ''The explanation should describe specific technical aspects of the paper that match the conference's focus areas.''"

definition questions :: "string \<Rightarrow> string list" where
  "questions conference =
     [''What specific technical contributions make this paper relevant to '' @ conference @ ''?'',
      ''How does this paper's methodology align with '' @ conference @ [CHR 0x27] @ ''s main themes?'',
      ''What is the main innovation of this paper that fits '' @ conference @ [CHR 0x27] @ ''s focus?'']"

text \<open>
  The span-extraction step (tokenizer, model, \<open>argmax\<close> over the logits, decoding) is an
  external collaborator: \<open>qa question context\<close> is the decoded answer, or the exception
  the step raised.
\<close>

type_synonym qa_model = "string \<Rightarrow> string \<Rightarrow> exc + string"

text \<open>
  The loop over the questions:
  \<^verbatim>\<open>if answer and len(answer.strip()) > 10: answers.append(answer.strip())\<close>
\<close>

fun answer_loop :: "qa_model \<Rightarrow> string \<Rightarrow> string list \<Rightarrow> string list \<Rightarrow> exc + string list" where
  "answer_loop qa context [] answers = Inr answers"
| "answer_loop qa context (question # rest) answers =
     (case qa question context of
        Inl e \<Rightarrow> Inl e
      | Inr answer \<Rightarrow>
          answer_loop qa context rest
            (if answer \<noteq> [] \<and> length (strip answer) > 10
             then answers @ [strip answer] else answers))"

text \<open>\<open>_generate_rationale\<close>.\<close>

definition generate_rationale :: "qa_model \<Rightarrow> string \<Rightarrow> string \<Rightarrow> exc + string" where
  "generate_rationale qa paper_content conference =
     (let content_preview = strip (replace (CHR 0x0A) (CHR '' '') (take 1000 paper_content));
          (title, abstract) = title_abstract content_preview
      in case map_of conference_contexts conference of
           None \<Rightarrow> Inl (KeyError conference)
         | Some info \<Rightarrow>
             (case answer_loop qa (make_context title abstract info) (questions conference) [] of
                Inl e \<Rightarrow> Inl e
              | Inr answers \<Rightarrow>
                  if answers \<noteq> [] then
                    Inr (''This paper is relevant to '' @ conference @ '' because ''
                         @ join ''. '' (take 2 (unique_answers answers)))
                  else
                    Inr (''This paper appears relevant to '' @ conference
                         @ '' based on its focus on '' @ title)))"

section \<open>Data model\<close>

text \<open>
  A \<open>pathlib.Path\<close> is kept as the components the code reads from it; only \<open>stem\<close> is
  used by the classification.
\<close>

record Path =
  parent :: string
  stem :: string
  suffix :: string

record Paper =
  content :: string
  path :: Path
  is_reference :: bool
  label :: "string option"
  conference :: "string option"

text \<open>The metadata stored with an indexed document, and one result of a query.\<close>

record Metadata =
  label :: "string option"
  conference :: "string option"
  path :: string

record Neighbor =
  score :: real
  metadata :: Metadata

text \<open>The dictionary appended to \<open>results\<close> for one paper.\<close>

record Result =
  paper_id :: string
  publishable :: int
  conference :: string
  rationale :: string
  confidence_scores :: "(string \<times> real) list"

record Detail =
  true_positives :: nat
  false_positives :: nat
  true_negatives :: nat
  false_negatives :: nat
  total_papers :: nat

record Metrics =
  accuracy :: real
  precision :: real
  recall :: real
  f1_score :: real
  conference_accuracy :: real
  metrics_detail :: Detail

section \<open>Floating-point numbers\<close>

text \<open>
  The similarity scores, their means and the threshold are float64 numbers. A finite
  float64 number is modelled by its exact value, a \<open>real\<close>: the comparisons of the
  source are then the comparisons of \<open>real\<close>. Infinities and NaN are not modelled; the
  scores are similarities in a bounded range.

  \<open>np.mean\<close> is numpy's. Its result is a float64 number obtained with rounding, so it
  is in general not the exact arithmetic mean of its arguments. It is kept as a function
  of the environment (the field \<open>np_mean\<close> of the services below) about which nothing
  is assumed. The source calls it on non-empty lists only.

  The true divisions of two integers in \<open>_similar_strings\<close> and in
  \<open>calculate_metrics\<close> are written as exact quotients. The source compares such a
  quotient only with the threshold of \<open>_similar_strings\<close> and with 0, and for strings
  of fewer than \<open>10^15\<close> characters the float64 comparison with 0.7 has the outcome of
  the exact comparison with 7/10.

  \<open>float_0_7\<close> is the float64 number that the literal \<open>0.7\<close> denotes.
\<close>

definition float_0_7 :: real where
  "float_0_7 = 3152519739159347 / 4503599627370496"

text \<open>
  Float64 arithmetic on numbers in the normal range (no overflow, no subnormal
  result): the exact result is rounded to 53 significant bits, to the nearest
  representable number and to the one with an even last bit in a tie.
  \<open>exponent x\<close> is, for \<open>x > 0\<close>, the integer \<open>e\<close> with \<open>2^e \<le> x < 2^(e+1)\<close>.
  \<open>float64_mean\<close> adds the numbers from left to right and divides the sum by their
  count; numpy may add more than two numbers in another order, and every list on which
  \<open>float64_mean\<close> is evaluated below has the same float64 sum in every order.
\<close>

definition round_half_even :: "real \<Rightarrow> int" where
  "round_half_even q =
     (let f = \<lfloor>q\<rfloor> in
      if q - of_int f < 1 / 2 then f
      else if q - of_int f > 1 / 2 then f + 1
      else if even f then f else f + 1)"

definition pow2 :: "int \<Rightarrow> real" where
  "pow2 e = (if 0 \<le> e then 2 ^ nat e else 1 / 2 ^ nat (- e))"

definition exponent :: "real \<Rightarrow> int" where
  "exponent x = (if 1 \<le> x then bitlen \<lfloor>x\<rfloor> - 1 else - bitlen (\<lceil>1 / x\<rceil> - 1))"

definition float64_round :: "real \<Rightarrow> real" where
  "float64_round x =
     (if x = 0 then 0
      else (let e = exponent \<bar>x\<bar>
            in sgn x * of_int (round_half_even (\<bar>x\<bar> * pow2 (52 - e))) * pow2 (e - 52)))"

definition float64_add :: "real \<Rightarrow> real \<Rightarrow> real" where
  "float64_add x y = float64_round (x + y)"

definition float64_div :: "real \<Rightarrow> real \<Rightarrow> real" where
  "float64_div x y = float64_round (x / y)"

definition float64_mean :: "real list \<Rightarrow> real" where
  "float64_mean xs = float64_div (foldl float64_add 0 xs) (real (length xs))"

section \<open>The external collaborators\<close>

text \<open>
  The vector store server is outside the program. Its state is a value of an arbitrary
  type \<open>'s\<close>; \<open>add_documents\<close> is the indexing request (it returns the new state or the
  exception it raised) and \<open>query\<close> is the nearest-neighbour request for one paper.
  \<open>qa\<close> is the span-extraction step and \<open>np_mean\<close> is numpy's \<open>np.mean\<close> on a
  non-empty list of float64 numbers.
\<close>

record 's Services =
  add_documents :: "'s \<Rightarrow> Paper list \<Rightarrow> exc + 's"
  query :: "'s \<Rightarrow> Paper \<Rightarrow> exc + Neighbor list"
  qa :: qa_model
  np_mean :: "real list \<Rightarrow> real"

text \<open>
  The state of a \<open>PaperClassifier\<close> that the modelled methods read or write. The
  decorator \<open>_track_performance\<close> of \<open>classify_papers\<close> is left out: it calls
  \<open>torch.cuda.reset_peak_memory_stats()\<close> before the method body, appends wall-clock
  time and memory readings to a log after it, and returns the result of the body
  unchanged. What is defined and proved below is about the method body, that is, about
  the calls in which the decorator's own call returns.
\<close>

record 's PaperClassifier =
  reference_papers :: "Paper list"
  vector_store :: 's

definition conferences :: "string list" where
  "conferences = [''TMLR'', ''CVPR'', ''EMNLP'', ''NeurIPS'', ''KDD'']"

section \<open>Classification\<close>

text \<open>
  \<open>conference_scores[k].append(v)\<close> on a dictionary kept as an association list in
  insertion order; a missing key raises \<open>KeyError\<close>.
\<close>

fun dict_append :: "string \<Rightarrow> real \<Rightarrow> (string \<times> real list) list \<Rightarrow> exc + (string \<times> real list) list" where
  "dict_append k v [] = Inl (KeyError k)"
| "dict_append k v ((k', vs) # d) =
     (if k = k' then Inr ((k', vs @ [v]) # d)
      else (case dict_append k v d of
              Inl e \<Rightarrow> Inl e
            | Inr d' \<Rightarrow> Inr ((k', vs) # d')))"

text \<open>
  The loop over the neighbours. \<open>if metadata["conference"]\<close> is false for \<open>None\<close> and for
  the empty string.
\<close>

fun score_loop :: "Neighbor list \<Rightarrow> real list \<Rightarrow> (string \<times> real list) list
                     \<Rightarrow> exc + (real list \<times> (string \<times> real list) list)" where
  "score_loop [] publishable_scores conference_scores = Inr (publishable_scores, conference_scores)"
| "score_loop (result # rest) publishable_scores conference_scores =
     (if Metadata.label (metadata result) = Some ''Publishable'' then
        (case Metadata.conference (metadata result) of
           None \<Rightarrow> score_loop rest (publishable_scores @ [score result]) conference_scores
         | Some c \<Rightarrow>
             if c = [] then score_loop rest (publishable_scores @ [score result]) conference_scores
             else (case dict_append c (score result) conference_scores of
                     Inl e \<Rightarrow> Inl e
                   | Inr conference_scores' \<Rightarrow>
                       score_loop rest (publishable_scores @ [score result]) conference_scores'))
      else score_loop rest publishable_scores conference_scores)"

text \<open>
  Python's \<open>max(items, key=key)\<close>: the first item with the largest key (a later item
  replaces the current one only when its key is strictly greater); \<open>ValueError\<close> on an
  empty sequence.
\<close>

fun max_loop :: "('a \<Rightarrow> real) \<Rightarrow> 'a \<Rightarrow> 'a list \<Rightarrow> 'a" where
  "max_loop key best [] = best"
| "max_loop key best (x # xs) = max_loop key (if key x > key best then x else best) xs"

definition py_max :: "('a \<Rightarrow> real) \<Rightarrow> 'a list \<Rightarrow> exc + 'a" where
  "py_max key items =
     (case items of
        [] \<Rightarrow> Inl (ValueError ''max() arg is an empty sequence'')
      | x # xs \<Rightarrow> Inr (max_loop key x xs))"

text \<open>
  The two aggregations of \<open>classify_papers\<close>; \<open>mean\<close> is \<open>np.mean\<close>.
\<close>

definition conf_avg_scores ::
  "(real list \<Rightarrow> real) \<Rightarrow> (string \<times> real list) list \<Rightarrow> (string \<times> real) list" where
  "conf_avg_scores mean conference_scores =
     map (\<lambda>(conf, scores). (conf, if scores \<noteq> [] then mean scores else 0)) conference_scores"

definition avg_publishable_score :: "(real list \<Rightarrow> real) \<Rightarrow> real list \<Rightarrow> real" where
  "avg_publishable_score mean publishable_scores =
     (if publishable_scores \<noteq> [] then mean publishable_scores else 0)"

text \<open>The body of the \<open>try\<close> block of \<open>classify_papers\<close> for one paper.\<close>

definition classify_paper :: "'s Services \<Rightarrow> 's \<Rightarrow> Paper \<Rightarrow> exc + Result" where
  "classify_paper srv store paper =
     (case query srv store paper of
        Inl e \<Rightarrow> Inl e
      | Inr similar_papers \<Rightarrow>
         (case score_loop similar_papers [] (map (\<lambda>conf. (conf, [])) conferences) of
            Inl e \<Rightarrow> Inl e
          | Inr (publishable_scores, conference_scores) \<Rightarrow>
             let avg = avg_publishable_score (np_mean srv) publishable_scores;
                 is_publishable = avg > float_0_7
             in if is_publishable then
                  (case py_max snd (conf_avg_scores (np_mean srv) conference_scores) of
                     Inl e \<Rightarrow> Inl e
                   | Inr best \<Rightarrow>
                      let best_conf = fst best
                      in (case generate_rationale (qa srv) (content paper) best_conf of
                            Inl e \<Rightarrow> Inl e
                          | Inr rationale_text \<Rightarrow>
                             (case map_of (conf_avg_scores (np_mean srv) conference_scores) best_conf of
                                None \<Rightarrow> Inl (KeyError best_conf)
                              | Some best_score \<Rightarrow>
                                 Inr \<lparr>paper_id = stem (Paper.path paper),
                                      publishable = 1,
                                      conference = best_conf,
                                      rationale = rationale_text,
                                      confidence_scores =
                                        [(''publishability'', avg), (''conference'', best_score)]\<rparr>)))
                else
                  Inr \<lparr>paper_id = stem (Paper.path paper),
                       publishable = 0,
                       conference = ''na'',
                       rationale = ''na'',
                       confidence_scores = [(''publishability'', avg)]\<rparr>))"

text \<open>One iteration of the loop over the papers, with the \<open>except Exception\<close> handler.\<close>

definition classify_one :: "'s Services \<Rightarrow> 's \<Rightarrow> Paper \<Rightarrow> Result" where
  "classify_one srv store paper =
     (case classify_paper srv store paper of
        Inr r \<Rightarrow> r
      | Inl e \<Rightarrow>
          \<lparr>paper_id = stem (Paper.path paper),
           publishable = 0,
           conference = ''error'',
           rationale = str_exc e,
           confidence_scores = []\<rparr>)"

fun classify_loop :: "'s Services \<Rightarrow> 's \<Rightarrow> Paper list \<Rightarrow> Result list \<Rightarrow> Result list" where
  "classify_loop srv store [] results = results"
| "classify_loop srv store (paper # papers) results =
     classify_loop srv store papers (results @ [classify_one srv store paper])"

text \<open>
  \<open>classify_papers\<close>: the reference papers \<open>refs\<close> are indexed first, outside the \<open>try\<close> block,
  so an exception of the indexing request leaves the method. The method returns the
  results and the classifier with the new state of the vector store.
\<close>

definition classify_papers ::
  "'s Services \<Rightarrow> 's PaperClassifier \<Rightarrow> Paper list \<Rightarrow> Paper list
     \<Rightarrow> exc + (Result list \<times> 's PaperClassifier)" where
  "classify_papers srv self refs papers =
     (case add_documents srv (vector_store self) refs of
        Inl e \<Rightarrow> Inl e
      | Inr store' \<Rightarrow>
          Inr (classify_loop srv store' papers [], self\<lparr>vector_store := store'\<rparr>))"

section \<open>Metrics\<close>

text \<open>Python's true division \<open>a / b\<close>.\<close>

definition truediv :: "real \<Rightarrow> real \<Rightarrow> exc + real" where
  "truediv a b = (if b = 0 then Inl ZeroDivisionError else Inr (a / b))"

text \<open>
  The loop of \<open>calculate_metrics\<close> over \<open>zip(validation_papers, results)\<close>. The six
  counters are, in this order, \<open>true_positives\<close>, \<open>false_positives\<close>, \<open>true_negatives\<close>,
  \<open>false_negatives\<close>, \<open>conference_correct\<close> and \<open>total_publishable\<close>.
\<close>

fun count_loop :: "(Paper \<times> Result) list \<Rightarrow> nat \<times> nat \<times> nat \<times> nat \<times> nat \<times> nat
                     \<Rightarrow> nat \<times> nat \<times> nat \<times> nat \<times> nat \<times> nat" where
  "count_loop [] counters = counters"
| "count_loop ((paper, result) # rest) (tp, fp, tn, fn, cc, tot) =
     (let is_actually_publishable = (Paper.label paper = Some ''Publishable'');
          is_predicted_publishable = (publishable result = 1);
          (tp', fp', tn', fn', cc') =
            (if is_predicted_publishable \<and> is_actually_publishable then
               (tp + 1, fp, tn, fn,
                if Paper.conference paper = Some (Result.conference result) then cc + 1 else cc)
             else if is_predicted_publishable \<and> \<not> is_actually_publishable then
               (tp, fp + 1, tn, fn, cc)
             else if \<not> is_predicted_publishable \<and> \<not> is_actually_publishable then
               (tp, fp, tn + 1, fn, cc)
             else (tp, fp, tn, fn + 1, cc))
      in count_loop rest (tp', fp', tn', fn', cc',
                          if is_actually_publishable then tot + 1 else tot))"

text \<open>
  The derived metrics, in the order in which the source evaluates them. Only the
  accuracy is divided without a test of its denominator.
\<close>

definition derive_metrics :: "nat \<times> nat \<times> nat \<times> nat \<times> nat \<times> nat \<Rightarrow> nat \<Rightarrow> exc + Metrics" where
  "derive_metrics counters n =
     (case counters of (tp, fp, tn, fn, cc, tot) \<Rightarrow>
       (case truediv (real (tp + tn)) (real n) of
          Inl e \<Rightarrow> Inl e
        | Inr acc \<Rightarrow>
           (case (if tp + fp > 0 then truediv (real tp) (real (tp + fp)) else Inr 0) of
              Inl e \<Rightarrow> Inl e
            | Inr prec \<Rightarrow>
               (case (if tp + fn > 0 then truediv (real tp) (real (tp + fn)) else Inr 0) of
                  Inl e \<Rightarrow> Inl e
                | Inr rec \<Rightarrow>
                   (case (if prec + rec > 0 then truediv (2 * (prec * rec)) (prec + rec) else Inr 0) of
                      Inl e \<Rightarrow> Inl e
                    | Inr f1 \<Rightarrow>
                       (case (if tot > 0 then truediv (real cc) (real tot) else Inr 0) of
                          Inl e \<Rightarrow> Inl e
                        | Inr conf_acc \<Rightarrow>
                           Inr \<lparr>accuracy = acc, precision = prec, recall = rec, f1_score = f1,
                                conference_accuracy = conf_acc,
                                metrics_detail =
                                  \<lparr>true_positives = tp, false_positives = fp,
                                   true_negatives = tn, false_negatives = fn,
                                   total_papers = n\<rparr>\<rparr>))))))"

text \<open>
  \<open>calculate_metrics\<close>: the validation papers are classified against
  \<open>self.reference_papers\<close>, the outcomes are counted and the metrics derived.
\<close>

definition calculate_metrics ::
  "'s Services \<Rightarrow> 's PaperClassifier \<Rightarrow> Paper list \<Rightarrow> exc + (Metrics \<times> 's PaperClassifier)" where
  "calculate_metrics srv self validation_papers =
     (case classify_papers srv self (reference_papers self) validation_papers of
        Inl e \<Rightarrow> Inl e
      | Inr (results, self') \<Rightarrow>
         (case derive_metrics (count_loop (zip validation_papers results) (0, 0, 0, 0, 0, 0))
                 (length validation_papers) of
            Inl e \<Rightarrow> Inl e
          | Inr m \<Rightarrow> Inr (m, self')))"

section \<open>Cross-validation\<close>





record Average =
  accuracy :: real
  f1_score :: real
  conference_accuracy :: real




section \<open>The aggregation as the specification words it\<close>

text \<open>
  The specification describes the aggregation by list comprehensions over the
  neighbours rather than by the loop with its two accumulators. These definitions
  follow the specification; the theorems below relate the loop of the source to them.
  \<open>spec_publishable_scores\<close> are the similarity scores of the neighbours labelled
  "Publishable" and \<open>spec_conference_scores ns c\<close> those of the publishable neighbours
  tagged with conference \<open>c\<close>.

  \<open>spec_avg_publishable_score\<close> and \<open>spec_conference_mean\<close> are the exact arithmetic
  means of these scores, or 0 if there are none. \<open>computed_avg_publishable_score\<close> and
  \<open>computed_conference_mean\<close> are the means as \<open>np.mean\<close> returns them, or 0 if there
  are no scores.
\<close>

definition spec_publishable_scores :: "Neighbor list \<Rightarrow> real list" where
  "spec_publishable_scores ns =
     [score n. n \<leftarrow> ns, Metadata.label (metadata n) = Some ''Publishable'']"

definition spec_avg_publishable_score :: "Neighbor list \<Rightarrow> real" where
  "spec_avg_publishable_score ns =
     (if spec_publishable_scores ns = [] then 0
      else sum_list (spec_publishable_scores ns) / real (length (spec_publishable_scores ns)))"

definition computed_avg_publishable_score :: "(real list \<Rightarrow> real) \<Rightarrow> Neighbor list \<Rightarrow> real" where
  "computed_avg_publishable_score mean ns =
     (if spec_publishable_scores ns = [] then 0 else mean (spec_publishable_scores ns))"

definition spec_conference_scores :: "Neighbor list \<Rightarrow> string \<Rightarrow> real list" where
  "spec_conference_scores ns c =
     [score n. n \<leftarrow> ns, Metadata.label (metadata n) = Some ''Publishable'',
                        Metadata.conference (metadata n) = Some c]"

definition spec_conference_mean :: "Neighbor list \<Rightarrow> string \<Rightarrow> real" where
  "spec_conference_mean ns c =
     (if spec_conference_scores ns c = [] then 0
      else sum_list (spec_conference_scores ns c) / real (length (spec_conference_scores ns c)))"

definition computed_conference_mean ::
  "(real list \<Rightarrow> real) \<Rightarrow> Neighbor list \<Rightarrow> string \<Rightarrow> real" where
  "computed_conference_mean mean ns c =
     (if spec_conference_scores ns c = [] then 0 else mean (spec_conference_scores ns c))"

section \<open>The metrics as the specification words them\<close>

text \<open>
  The derived metrics of the specification, from the six counters and the number of
  validation papers: accuracy = (TP+TN)/total; precision = TP/(TP+FP), or 0 if TP+FP
  is 0; recall = TP/(TP+FN), or 0 if TP+FN is 0; F1 = the harmonic mean 2PR/(P+R) of
  precision and recall, or 0 if both are 0; conference accuracy = conferenceCorrect /
  totalActuallyPublishable, or 0 if there is no actually publishable paper.
\<close>

definition spec_precision :: "nat \<Rightarrow> nat \<Rightarrow> real" where
  "spec_precision tp fp = (if tp + fp = 0 then 0 else real tp / real (tp + fp))"

definition spec_recall :: "nat \<Rightarrow> nat \<Rightarrow> real" where
  "spec_recall tp fn = (if tp + fn = 0 then 0 else real tp / real (tp + fn))"

definition spec_f1 :: "real \<Rightarrow> real \<Rightarrow> real" where
  "spec_f1 p r = (if p = 0 \<and> r = 0 then 0 else 2 * p * r / (p + r))"

definition spec_metrics :: "nat \<times> nat \<times> nat \<times> nat \<times> nat \<times> nat \<Rightarrow> nat \<Rightarrow> Metrics" where
  "spec_metrics counters n =
     (case counters of (tp, fp, tn, fn, cc, tot) \<Rightarrow>
        \<lparr>Metrics.accuracy = real (tp + tn) / real n,
         precision = spec_precision tp fp,
         recall = spec_recall tp fn,
         Metrics.f1_score = spec_f1 (spec_precision tp fp) (spec_recall tp fn),
         Metrics.conference_accuracy = (if tot = 0 then 0 else real cc / real tot),
         metrics_detail =
           \<lparr>true_positives = tp, false_positives = fp, true_negatives = tn,
            false_negatives = fn, total_papers = n\<rparr>\<rparr>)"

section \<open>Concrete inputs\<close>

text \<open>
  Small inputs on which the theorems are instantiated: a vector store whose state is the
  list of the documents added so far and one that refuses every indexing request, a
  question-answering step that returns a fixed answer, lists of neighbours, and a query
  that answers a paper according to its name: it raises for the paper named "bad".
  The scores are float64 numbers: 7/8, 1/4 and 15/16, the float64 numbers denoted by
  0.6, 0.7 and 0.8, and the largest float64 number below 1. The mean of the example
  services is \<open>float64_mean\<close>.
\<close>

definition store_add :: "Paper list \<Rightarrow> Paper list \<Rightarrow> exc + Paper list" where
  "store_add store docs = Inr (store @ docs)"

definition store_refuse :: "Paper list \<Rightarrow> Paper list \<Rightarrow> exc + Paper list" where
  "store_refuse store docs = Inl (ExternalError ''index unavailable'')"

definition const_qa :: "string \<Rightarrow> qa_model" where
  "const_qa answer question context = Inr answer"

definition neighbor :: "real \<Rightarrow> string option \<Rightarrow> string option \<Rightarrow> Neighbor" where
  "neighbor s l c = \<lparr>score = s, metadata = \<lparr>label = l, conference = c, path = ''ref.pdf''\<rparr>\<rparr>"

definition paper :: "string \<Rightarrow> string option \<Rightarrow> string option \<Rightarrow> Paper" where
  "paper name l c =
     \<lparr>content = ''Graph mining. We mine graphs. At scale. More'',
      path = \<lparr>parent = ''Papers'', stem = name, suffix = ''.pdf''\<rparr>,
      is_reference = False, label = l, conference = c\<rparr>"

definition classifier :: "Paper list \<Rightarrow> Paper list PaperClassifier" where
  "classifier refs = \<lparr>reference_papers = refs, vector_store = []\<rparr>"


definition float_0_6 :: real where
  "float_0_6 = 5404319552844595 / 9007199254740992"

definition float_0_8 :: real where
  "float_0_8 = 3602879701896397 / 4503599627370496"

definition float_below_1 :: real where
  "float_below_1 = 9007199254740991 / 9007199254740992"

definition neighbours_tie :: "Neighbor list" where
  "neighbours_tie =
     [neighbor (7 / 8) (Some ''Publishable'') (Some ''EMNLP''),
      neighbor (7 / 8) (Some ''Publishable'') (Some ''CVPR''),
      neighbor (1 / 4) (Some ''NonPublishable'') None]"

definition neighbours_boundary :: "Neighbor list" where
  "neighbours_boundary = [neighbor float_0_7 (Some ''Publishable'') (Some ''KDD'')]"

definition neighbours_nonpublishable :: "Neighbor list" where
  "neighbours_nonpublishable = [neighbor (15 / 16) (Some ''NonPublishable'') None]"

definition neighbours_untagged :: "Neighbor list" where
  "neighbours_untagged = [neighbor (7 / 8) (Some ''Publishable'') None]"

definition neighbours_rounding :: "Neighbor list" where
  "neighbours_rounding =
     [neighbor float_0_6 (Some ''Publishable'') (Some ''KDD''),
      neighbor float_0_8 (Some ''Publishable'') (Some ''KDD'')]"

definition neighbours_rounding_tie :: "Neighbor list" where
  "neighbours_rounding_tie =
     [neighbor 1 (Some ''Publishable'') (Some ''TMLR''),
      neighbor float_below_1 (Some ''Publishable'') (Some ''TMLR''),
      neighbor 1 (Some ''Publishable'') (Some ''CVPR'')]"

definition example_query :: "Paper list \<Rightarrow> Paper \<Rightarrow> exc + Neighbor list" where
  "example_query store p =
     (if stem (Paper.path p) = ''bad'' then Inl (ExternalError ''connection refused'')
      else if stem (Paper.path p) = ''weak'' then Inr neighbours_nonpublishable
      else if stem (Paper.path p) = ''boundary'' then Inr neighbours_boundary
      else if stem (Paper.path p) = ''untagged'' then Inr neighbours_untagged
      else if stem (Paper.path p) = ''rounding'' then Inr neighbours_rounding
      else if stem (Paper.path p) = ''rounding_tie'' then Inr neighbours_rounding_tie
      else Inr neighbours_tie)"

definition example_services :: "string \<Rightarrow> Paper list Services" where
  "example_services answer =
     \<lparr>add_documents = store_add, query = example_query, qa = const_qa answer,
      np_mean = float64_mean\<rparr>"

definition refusing_services :: "string \<Rightarrow> Paper list Services" where
  "refusing_services answer =
     \<lparr>add_documents = store_refuse, query = example_query, qa = const_qa answer,
      np_mean = float64_mean\<rparr>"

text \<open>
  A question-answering step that answers the three questions of \<open>_generate_rationale\<close>
  with three given strings, told apart by the first words of the question.
\<close>

definition three_answers :: "string \<Rightarrow> string \<Rightarrow> string \<Rightarrow> string \<Rightarrow> string \<Rightarrow> string" where
  "three_answers a1 a2 a3 question context =
     (if take 8 question = ''What spe'' then a1
      else if take 8 question = ''How does'' then a2
      else a3)"

definition three_answers_qa :: "string \<Rightarrow> string \<Rightarrow> string \<Rightarrow> qa_model" where
  "three_answers_qa a1 a2 a3 question context = Inr (three_answers a1 a2 a3 question context)"

section \<open>Properties of the string helpers and of the deduplication\<close>

lemma zip_match_commute:
  "sum_list [1::nat. (a, b) \<leftarrow> zip xs ys, a = b] = sum_list [1. (a, b) \<leftarrow> zip ys xs, a = b]"
  by (induction xs ys rule: list_induct2') auto

lemma common_commute: "common str1 str2 = common str2 str1"
  unfolding common_def by (rule zip_match_commute)

lemma similar_strings_short:
  "length a < 10 \<or> length b < 10 \<Longrightarrow> \<not> similar_strings a b t"
  by (simp add: similar_strings_def)

lemma similar_strings_ratio:
  "10 \<le> length a \<Longrightarrow> 10 \<le> length b \<Longrightarrow>
   similar_strings a b t \<longleftrightarrow> real (common a b) / real (max (length a) (length b)) > t"
  by (simp add: similar_strings_def)

lemma pairwise_snoc:
  assumes u: "\<forall>q < length u. \<forall>p < q. \<not> R (u ! q) (u ! p)"
    and a: "\<forall>p < length u. \<not> R a (u ! p)"
  shows "\<forall>q < length (u @ [a]). \<forall>p < q. \<not> R ((u @ [a]) ! q) ((u @ [a]) ! p)"
proof (intro allI impI)
  fix q p assume q: "q < length (u @ [a])" and p: "p < q"
  show "\<not> R ((u @ [a]) ! q) ((u @ [a]) ! p)"
  proof (cases "q < length u")
    case True
    with u p show ?thesis by (simp add: nth_append)
  next
    case False
    with q have "q = length u" by simp
    with a p show ?thesis by (simp add: nth_append)
  qed
qed

lemma dedup_loop_pairwise:
  assumes "\<forall>q < length u. \<forall>p < q. \<not> similar_strings (u ! q) (u ! p) default_threshold"
  shows "\<forall>q < length (dedup_loop as u). \<forall>p < q.
           \<not> similar_strings (dedup_loop as u ! q) (dedup_loop as u ! p) default_threshold"
  using assms
proof (induction as arbitrary: u)
  case Nil
  then show ?case by simp
next
  case (Cons a as)
  show ?case
  proof (cases "list_ex (\<lambda>existing. similar_strings a existing default_threshold) u")
    case True
    then have "dedup_loop (a # as) u = dedup_loop as u" by simp
    with Cons.IH[OF Cons.prems] show ?thesis by (simp only:)
  next
    case False
    then have na: "\<forall>p < length u. \<not> similar_strings a (u ! p) default_threshold"
      by (simp add: list_ex_iff)
    from False have eq: "dedup_loop (a # as) u = dedup_loop as (u @ [a])" by simp
    from Cons.IH[OF pairwise_snoc[of u "\<lambda>x y. similar_strings x y default_threshold", OF Cons.prems na]]
    show ?thesis by (simp only: eq)
  qed
qed

lemma unique_answers_pairwise:
  "q < length (unique_answers as) \<Longrightarrow> p < q \<Longrightarrow>
   \<not> similar_strings (unique_answers as ! q) (unique_answers as ! p) default_threshold"
  using dedup_loop_pairwise[of "[]" as] by (simp add: unique_answers_def)

lemma dedup_loop_Nil_iff: "dedup_loop as u = [] \<longleftrightarrow> as = [] \<and> u = []"
proof (induction as arbitrary: u)
  case Nil show ?case by simp
next
  case (Cons a as)
  show ?case by (cases u) (simp_all add: Cons.IH)
qed

lemma unique_answers_Nil_iff: "unique_answers as = [] \<longleftrightarrow> as = []"
  by (simp add: unique_answers_def dedup_loop_Nil_iff)

lemma dedup_loop_set: "set (dedup_loop as u) \<subseteq> set u \<union> set as"
proof (induction as arbitrary: u)
  case Nil show ?case by simp
next
  case (Cons a as)
  show ?case using Cons.IH[of "u @ [a]"] Cons.IH[of u] by (simp split: if_splits) blast
qed

lemma unique_answers_pair:
  "unique_answers [a, b] = (if similar_strings b a default_threshold then [a] else [a, b])"
  by (simp add: unique_answers_def)

lemma strip_Nil: "strip [] = []"
  by (simp add: strip_def)

lemma answer_loop_total:
  "answer_loop (\<lambda>q c. Inr (raw q c)) ctx qs acc =
     Inr (acc @ filter (\<lambda>a. length a > 10) (map (\<lambda>q. strip (raw q ctx)) qs))"
proof (induction qs arbitrary: acc)
  case Nil
  show ?case by simp
next
  case (Cons q qs)
  have "raw q ctx = [] \<Longrightarrow> \<not> length (strip (raw q ctx)) > 10" by (simp add: strip_Nil)
  then show ?case by (auto simp: Cons.IH)
qed

lemma split_not_Nil: "split sep s \<noteq> []"
  by (induction s) (simp_all split: list.splits)

lemma hd_split: "hd (split sep s) = takeWhile (\<lambda>c. c \<noteq> sep) s"
proof (induction s)
  case Nil show ?case by simp
next
  case (Cons c cs)
  then show ?case using split_not_Nil[of sep cs] by (cases "split sep cs") simp_all
qed

lemma title_is_prefix: "fst (title_abstract s) = takeWhile (\<lambda>c. c \<noteq> CHR ''.'') s"
  using hd_split[of "CHR ''.''" s] split_not_Nil[of "CHR ''.''" s]
  by (cases "split (CHR ''.'') s") (simp_all add: title_abstract_def)

section \<open>Properties of the aggregation\<close>

lemma dict_append_distinct:
  "distinct (map fst d) \<Longrightarrow> dict_append k v d = Inr d' \<Longrightarrow>
   d' = map (\<lambda>(k', vs). (k', if k' = k then vs @ [v] else vs)) d"
proof (induction d arbitrary: d')
  case Nil
  then show ?case by simp
next
  case (Cons kv d)
  obtain k' vs where kv: "kv = (k', vs)" by (cases kv)
  show ?case
  proof (cases "k = k'")
    case True
    with Cons.prems kv have d': "d' = (k', vs @ [v]) # d" and notin: "k \<notin> fst ` set d" by auto
    from notin have "map (\<lambda>(k', vs). (k', if k' = k then vs @ [v] else vs)) d = d"
      by (induction d) auto
    with d' True kv show ?thesis by simp
  next
    case False
    with Cons.prems kv obtain d'' where a: "dict_append k v d = Inr d''" and d': "d' = (k', vs) # d''"
      by (auto split: sum.splits)
    from Cons.IH[OF _ a] Cons.prems(1) have "d'' = map (\<lambda>(k', vs). (k', if k' = k then vs @ [v] else vs)) d"
      by simp
    with d' False kv show ?thesis by simp
  qed
qed

lemma score_loop_publishable:
  "score_loop ns ps cs = Inr (ps', cs') \<Longrightarrow> ps' = ps @ spec_publishable_scores ns"
proof (induction ns arbitrary: ps cs)
  case Nil
  then show ?case by (simp add: spec_publishable_scores_def)
next
  case (Cons n ns)
  show ?case
  proof (cases "Metadata.label (metadata n) = Some ''Publishable''")
    case False
    with Cons.prems have "score_loop ns ps cs = Inr (ps', cs')" by simp
    from Cons.IH[OF this] False show ?thesis by (simp add: spec_publishable_scores_def)
  next
    case True
    with Cons.prems obtain cs1 where "score_loop ns (ps @ [score n]) cs1 = Inr (ps', cs')"
      by (auto split: option.splits if_splits sum.splits)
    from Cons.IH[OF this] True show ?thesis by (simp add: spec_publishable_scores_def)
  qed
qed

lemma score_loop_conference:
  "distinct (map fst cs) \<Longrightarrow> [] \<notin> fst ` set cs \<Longrightarrow> score_loop ns ps cs = Inr (ps', cs') \<Longrightarrow>
   cs' = map (\<lambda>(k, vs). (k, vs @ spec_conference_scores ns k)) cs"
proof (induction ns arbitrary: ps cs)
  case Nil
  then show ?case by (simp add: spec_conference_scores_def)
next
  case (Cons n ns)
  show ?case
  proof (cases "Metadata.label (metadata n) = Some ''Publishable''")
    case False
    with Cons.prems have "score_loop ns ps cs = Inr (ps', cs')" by simp
    from Cons.IH[OF Cons.prems(1,2) this] False show ?thesis
      by (simp add: spec_conference_scores_def)
  next
    case True
    show ?thesis
    proof (cases "\<exists>c. Metadata.conference (metadata n) = Some c \<and> c \<noteq> []")
      case False
      with True Cons.prems have a: "score_loop ns (ps @ [score n]) cs = Inr (ps', cs')"
        by (auto split: option.splits if_splits)
      have "\<And>k. k \<in> fst ` set cs \<Longrightarrow> spec_conference_scores (n # ns) k = spec_conference_scores ns k"
        using False Cons.prems(2) by (auto simp: spec_conference_scores_def image_iff)
      then have "map (\<lambda>(k, vs). (k, vs @ spec_conference_scores (n # ns) k)) cs
               = map (\<lambda>(k, vs). (k, vs @ spec_conference_scores ns k)) cs"
        by (auto simp: image_iff) force
      with Cons.IH[OF Cons.prems(1,2) a] show ?thesis by simp
    next
      case c: True
      then obtain c where c: "Metadata.conference (metadata n) = Some c" "c \<noteq> []" by blast
      with True Cons.prems obtain cs1 where
        d: "dict_append c (score n) cs = Inr cs1" and
        a: "score_loop ns (ps @ [score n]) cs1 = Inr (ps', cs')"
        by (auto split: sum.splits)
      from dict_append_distinct[OF Cons.prems(1) d]
      have cs1: "cs1 = map (\<lambda>(k', vs). (k', if k' = c then vs @ [score n] else vs)) cs" .
      then have keys: "map fst cs1 = map fst cs" by (simp add: comp_def case_prod_beta)
      have "distinct (map fst cs1)" "[] \<notin> fst ` set cs1"
        using keys Cons.prems(1,2) by (simp, metis list.set_map)
      from Cons.IH[OF this a]
      have "cs' = map (\<lambda>(k, vs). (k, vs @ spec_conference_scores ns k)) cs1" .
      also have "\<dots> = map (\<lambda>(k, vs). (k, vs @ spec_conference_scores (n # ns) k)) cs"
        using True c by (auto simp: cs1 spec_conference_scores_def)
      finally show ?thesis .
    qed
  qed
qed

lemma max_loop_split:
  "\<exists>ys zs. b # xs = ys @ max_loop key b xs # zs \<and>
      (\<forall>y \<in> set ys. key y < key (max_loop key b xs)) \<and>
      (\<forall>z \<in> set zs. key z \<le> key (max_loop key b xs))"
proof (induction xs arbitrary: b)
  case Nil
  have "[b] = [] @ b # []" by simp
  then show ?case by (simp only: max_loop.simps) fastforce
next
  case (Cons x xs)
  define b' where "b' = (if key x > key b then x else b)"
  define r where "r = max_loop key b' xs"
  have r: "max_loop key b (x # xs) = r" by (simp add: r_def b'_def)
  from Cons.IH[of b'] obtain ys zs where
    dec: "b' # xs = ys @ r # zs" and lt: "\<forall>y \<in> set ys. key y < key r"
    and le: "\<forall>z \<in> set zs. key z \<le> key r" unfolding r_def by blast
  have b'r: "key b' \<le> key r"
  proof (cases ys)
    case Nil
    with dec have "b' = r" by simp
    then show ?thesis by simp
  next
    case (Cons y ys')
    with dec have "y = b'" by simp
    with lt Cons show ?thesis by (simp add: less_imp_le)
  qed
  show ?case
  proof (cases "key x > key b")
    case True
    then have bx: "b' = x" by (simp add: b'_def)
    with dec have "b # x # xs = (b # ys) @ r # zs" by simp
    moreover have "\<forall>y \<in> set (b # ys). key y < key r" using True b'r lt bx by auto
    ultimately show ?thesis unfolding r using le by blast
  next
    case False
    then have bb: "b' = b" by (simp add: b'_def)
    show ?thesis
    proof (cases ys)
      case Nil
      with dec bb have rb: "r = b" and "zs = xs" by simp_all
      then have "b # x # xs = [] @ r # (x # zs)" by simp
      moreover have "\<forall>z \<in> set (x # zs). key z \<le> key r"
        using False le rb by auto
      moreover have "\<forall>y \<in> set ([]::'a list). key y < key r" by simp
      ultimately show ?thesis unfolding r by blast
    next
      case (Cons y ys')
      with dec bb have y: "y = b" and xs: "xs = ys' @ r # zs" by simp_all
      then have "b # x # xs = (b # x # ys') @ r # zs" by simp
      moreover have "\<forall>y \<in> set (b # x # ys'). key y < key r"
        using False lt Cons y by auto
      ultimately show ?thesis unfolding r using le by blast
    qed
  qed
qed

lemma conferences_init:
  "distinct (map fst (map (\<lambda>conf. (conf, [])) conferences))"
  "[] \<notin> fst ` set (map (\<lambda>conf. (conf, []::real list)) conferences)"
  by (simp_all add: conferences_def)

lemma score_loop_init:
  assumes "score_loop ns [] (map (\<lambda>conf. (conf, [])) conferences) = Inr (ps, cs)"
  shows "ps = spec_publishable_scores ns"
    and "cs = map (\<lambda>c. (c, spec_conference_scores ns c)) conferences"
proof -
  from score_loop_publishable[OF assms] show "ps = spec_publishable_scores ns" by simp
  from score_loop_conference[OF conferences_init assms]
  show "cs = map (\<lambda>c. (c, spec_conference_scores ns c)) conferences" by simp
qed

lemma avg_publishable_score_spec:
  "avg_publishable_score mean (spec_publishable_scores ns) = computed_avg_publishable_score mean ns"
  by (simp add: avg_publishable_score_def computed_avg_publishable_score_def)

lemma conf_avg_scores_spec:
  "conf_avg_scores mean (map (\<lambda>c. (c, spec_conference_scores ns c)) cs)
     = map (\<lambda>c. (c, computed_conference_mean mean ns c)) cs"
  by (simp add: conf_avg_scores_def computed_conference_mean_def)

lemma py_max_first:
  assumes "py_max key items = Inr best"
  shows "\<exists>i < length items. best = items ! i \<and>
           (\<forall>j < length items. key (items ! j) \<le> key (items ! i)) \<and>
           (\<forall>j < i. key (items ! j) < key (items ! i))"
proof (cases items)
  case Nil
  with assms show ?thesis by (simp add: py_max_def)
next
  case (Cons b xs)
  with assms have best: "best = max_loop key b xs" by (simp add: py_max_def)
  from max_loop_split[of b xs key] obtain ys zs where
    dec: "items = ys @ best # zs" and lt: "\<forall>y \<in> set ys. key y < key best"
    and le: "\<forall>z \<in> set zs. key z \<le> key best" unfolding best Cons by blast
  have i: "length ys < length items" "items ! length ys = best" by (simp_all add: dec)
  have "\<forall>j < length items. key (items ! j) \<le> key best"
  proof (intro allI impI)
    fix j assume "j < length items"
    then have "items ! j \<in> set items" by simp
    moreover have "set items = set ys \<union> {best} \<union> set zs" by (simp add: dec)
    ultimately have "items ! j \<in> set ys \<or> items ! j = best \<or> items ! j \<in> set zs" by blast
    with lt le show "key (items ! j) \<le> key best" by (auto simp: less_imp_le)
  qed
  moreover have "\<forall>j < length ys. key (items ! j) < key best"
    using lt by (simp add: dec nth_append)
  ultimately show ?thesis using i by metis
qed

lemma generate_rationale_prefix:
  assumes "generate_rationale q c conf = Inr r"
  shows "\<exists>rest. r = ''This paper '' @ rest"
  using assms
  by (auto simp: generate_rationale_def Let_def split: option.splits sum.splits prod.splits if_splits)

lemma generate_rationale_not_na: "generate_rationale q c conf = Inr r \<Longrightarrow> r \<noteq> ''na''"
  using generate_rationale_prefix[of q c conf r] by auto

lemma classify_paper_Inr:
  assumes c: "classify_paper srv store p = Inr r" and q: "query srv store p = Inr ns"
  shows "if computed_avg_publishable_score (np_mean srv) ns > float_0_7 then
           (\<exists>best rat. py_max snd (map (\<lambda>c. (c, computed_conference_mean (np_mean srv) ns c)) conferences) = Inr best \<and>
              generate_rationale (qa srv) (content p) (fst best) = Inr rat \<and>
              r = \<lparr>paper_id = stem (Paper.path p), publishable = 1, conference = fst best,
                   rationale = rat,
                   confidence_scores = [(''publishability'', computed_avg_publishable_score (np_mean srv) ns),
                                        (''conference'', snd best)]\<rparr>)
         else r = \<lparr>paper_id = stem (Paper.path p), publishable = 0, conference = ''na'',
                   rationale = ''na'',
                   confidence_scores = [(''publishability'', computed_avg_publishable_score (np_mean srv) ns)]\<rparr>"
proof -
  from c q obtain ps cs where
    sl: "score_loop ns [] (map (\<lambda>conf. (conf, [])) conferences) = Inr (ps, cs)"
    by (auto simp: classify_paper_def split: sum.splits)
  note ps = score_loop_init(1)[OF sl] and cs = score_loop_init(2)[OF sl]
  have avg: "avg_publishable_score (np_mean srv) ps = computed_avg_publishable_score (np_mean srv) ns"
    by (simp add: ps avg_publishable_score_spec)
  have cas: "conf_avg_scores (np_mean srv) cs = map (\<lambda>c. (c, computed_conference_mean (np_mean srv) ns c)) conferences"
    by (simp add: cs conf_avg_scores_spec)
  show ?thesis
  proof (cases "computed_avg_publishable_score (np_mean srv) ns > float_0_7")
    case False
    with c q sl avg show ?thesis by (simp add: classify_paper_def Let_def)
  next
    case True
    with c q sl avg cas obtain best rat s where
      b: "py_max snd (map (\<lambda>c. (c, computed_conference_mean (np_mean srv) ns c)) conferences) = Inr best" and
      g: "generate_rationale (qa srv) (content p) (fst best) = Inr rat" and
      m: "map_of (map (\<lambda>c. (c, computed_conference_mean (np_mean srv) ns c)) conferences) (fst best) = Some s" and
      r: "r = \<lparr>paper_id = stem (Paper.path p), publishable = 1, conference = fst best,
                   rationale = rat,
                   confidence_scores = [(''publishability'', computed_avg_publishable_score (np_mean srv) ns),
                                        (''conference'', s)]\<rparr>"
      by (auto simp: classify_paper_def Let_def split: sum.splits option.splits)
    from py_max_first[OF b] obtain i where "i < length conferences"
      "best = (conferences ! i, computed_conference_mean (np_mean srv) ns (conferences ! i))" by auto
    with m have "s = snd best" by (simp add: map_of_map_restrict restrict_map_def split: if_splits)
    with True b g r show ?thesis by auto
  qed
qed

lemma classify_loop_map:
  "classify_loop srv store papers results = results @ map (classify_one srv store) papers"
  by (induction papers arbitrary: results) simp_all

lemma classify_papers_Inr:
  "add_documents srv (vector_store self) refs = Inr store' \<Longrightarrow>
   classify_papers srv self refs papers
     = Inr (map (classify_one srv store') papers, self\<lparr>vector_store := store'\<rparr>)"
  by (simp add: classify_papers_def classify_loop_map)

lemma classify_paper_query:
  "classify_paper srv store p = Inr r \<Longrightarrow> \<exists>ns. query srv store p = Inr ns"
  by (cases "query srv store p") (simp_all add: classify_paper_def)

lemma classify_paper_paper_id:
  assumes "classify_paper srv store p = Inr r"
  shows "paper_id r = stem (Paper.path p)"
proof -
  from classify_paper_query[OF assms] obtain ns where q: "query srv store p = Inr ns" ..
  from classify_paper_Inr[OF assms q] show ?thesis by (auto split: if_splits)
qed

lemma classify_one_paper_id: "paper_id (classify_one srv store p) = stem (Paper.path p)"
  by (cases "classify_paper srv store p") (simp_all add: classify_one_def classify_paper_paper_id)

lemma classify_paper_invariant:
  assumes "classify_paper srv store p = Inr r"
  shows "(publishable r = 1 \<and> Result.conference r \<in> set conferences \<and> rationale r \<noteq> ''na'')
       \<or> (publishable r = 0 \<and> Result.conference r = ''na'' \<and> rationale r = ''na'')"
proof -
  from classify_paper_query[OF assms] obtain ns where q: "query srv store p = Inr ns" ..
  note c = classify_paper_Inr[OF assms q]
  show ?thesis
  proof (cases "computed_avg_publishable_score (np_mean srv) ns > float_0_7")
    case False
    with c show ?thesis by simp
  next
    case True
    with c obtain best rat where
      b: "py_max snd (map (\<lambda>c. (c, computed_conference_mean (np_mean srv) ns c)) conferences) = Inr best" and
      g: "generate_rationale (qa srv) (content p) (fst best) = Inr rat" and
      r: "publishable r = 1" "Result.conference r = fst best" "rationale r = rat"
      by auto
    from py_max_first[OF b] have "fst best \<in> set conferences" by auto
    with r generate_rationale_not_na[OF g] show ?thesis by simp
  qed
qed


section \<open>Symmetry of the similarity test\<close>

text \<open>
  Claim C9. \<open>_similar_strings\<close> is symmetric in its two strings for every threshold: the
  number of matching positions of the zipped strings and the longer of the two lengths
  do not depend on the order of the arguments.
\<close>

theorem similar_strings_symmetric:
  "similar_strings a b threshold = similar_strings b a threshold"
  unfolding similar_strings_def common_commute[of a b] max.commute[of "length a" "length b"]
  by (simp add: disj_commute)

section \<open>The classification decision\<close>

text \<open>
  Claim C1, amended. For a paper whose \<open>try\<close> block ends without an exception, the record
  says publishable exactly when the mean that \<open>np.mean\<close> returns for the scores of the
  neighbours labelled "Publishable" (0 when there are none) is strictly greater than the
  float64 number 0.7. A computed mean of exactly 0.7 gives not publishable; with no
  publishable neighbour the mean is 0 and the paper is not publishable. The
  publishability confidence stored in the record is that computed mean.
\<close>

theorem publishable_iff_mean_above_threshold:
  assumes "query srv store p = Inr ns" and "classify_paper srv store p = Inr r"
  shows "(publishable r = 1 \<longleftrightarrow> computed_avg_publishable_score (np_mean srv) ns > float_0_7)
       \<and> (publishable r = 0 \<longleftrightarrow> \<not> computed_avg_publishable_score (np_mean srv) ns > float_0_7)
       \<and> (computed_avg_publishable_score (np_mean srv) ns = float_0_7 \<longrightarrow> publishable r = 0)
       \<and> (spec_publishable_scores ns = []
            \<longrightarrow> computed_avg_publishable_score (np_mean srv) ns = 0 \<and> publishable r = 0)
       \<and> map_of (confidence_scores r) ''publishability''
            = Some (computed_avg_publishable_score (np_mean srv) ns)"
proof (cases "computed_avg_publishable_score (np_mean srv) ns > float_0_7")
  case True
  with classify_paper_Inr[OF assms(2,1)] have
    "publishable r = 1"
    "map_of (confidence_scores r) ''publishability''
       = Some (computed_avg_publishable_score (np_mean srv) ns)"
    by auto
  moreover from True have "spec_publishable_scores ns \<noteq> []"
    by (auto simp: computed_avg_publishable_score_def float_0_7_def)
  ultimately show ?thesis using True by simp
next
  case False
  with classify_paper_Inr[OF assms(2,1)] have
    "publishable r = 0"
    "map_of (confidence_scores r) ''publishability''
       = Some (computed_avg_publishable_score (np_mean srv) ns)"
    by auto
  then show ?thesis using False by (simp add: computed_avg_publishable_score_def)
qed

theorem publishable_iff_mean_above_threshold_witness:
  "classify_paper (example_services ''graph mining at scale'') [] (paper ''p1'' None None)
     = Inr \<lparr>paper_id = ''p1'', publishable = 1, conference = ''CVPR'',
            rationale = ''This paper is relevant to CVPR because graph mining at scale'',
            confidence_scores = [(''publishability'', 7 / 8), (''conference'', 7 / 8)]\<rparr>
   \<and> computed_avg_publishable_score float64_mean neighbours_tie > float_0_7
   \<and> classify_paper (example_services ''graph mining at scale'') [] (paper ''boundary'' None None)
     = Inr \<lparr>paper_id = ''boundary'', publishable = 0, conference = ''na'', rationale = ''na'',
            confidence_scores = [(''publishability'', float_0_7)]\<rparr>
   \<and> computed_avg_publishable_score float64_mean neighbours_boundary = float_0_7
   \<and> classify_paper (example_services ''graph mining at scale'') [] (paper ''weak'' None None)
     = Inr \<lparr>paper_id = ''weak'', publishable = 0, conference = ''na'', rationale = ''na'',
            confidence_scores = [(''publishability'', 0)]\<rparr>
   \<and> spec_publishable_scores neighbours_nonpublishable = []
   \<and> computed_avg_publishable_score float64_mean neighbours_nonpublishable = 0"
proof -
  let ?srv = "example_services ''graph mining at scale''"
  have m: "np_mean ?srv = float64_mean" by (simp add: example_services_def)
  have q1: "query ?srv [] (paper ''p1'' None None) = Inr neighbours_tie" by code_simp
  have q2: "query ?srv [] (paper ''boundary'' None None) = Inr neighbours_boundary" by code_simp
  have q3: "query ?srv [] (paper ''weak'' None None) = Inr neighbours_nonpublishable" by code_simp
  have c1: "classify_paper ?srv [] (paper ''p1'' None None)
     = Inr \<lparr>paper_id = ''p1'', publishable = 1, conference = ''CVPR'',
            rationale = ''This paper is relevant to CVPR because graph mining at scale'',
            confidence_scores = [(''publishability'', 7 / 8), (''conference'', 7 / 8)]\<rparr>" by code_simp
  have c2: "classify_paper ?srv [] (paper ''boundary'' None None)
     = Inr \<lparr>paper_id = ''boundary'', publishable = 0, conference = ''na'', rationale = ''na'',
            confidence_scores = [(''publishability'', float_0_7)]\<rparr>" by code_simp
  have c3: "classify_paper ?srv [] (paper ''weak'' None None)
     = Inr \<lparr>paper_id = ''weak'', publishable = 0, conference = ''na'', rationale = ''na'',
            confidence_scores = [(''publishability'', 0)]\<rparr>" by code_simp
  have s2: "computed_avg_publishable_score float64_mean neighbours_boundary = float_0_7"
    by code_simp
  have s3: "spec_publishable_scores neighbours_nonpublishable = []" by code_simp
  from publishable_iff_mean_above_threshold[OF q1 c1]
       publishable_iff_mean_above_threshold[OF q2 c2]
       publishable_iff_mean_above_threshold[OF q3 c3] c1 c2 c3 s2 s3
  show ?thesis by (simp add: m)
qed

text \<open>
  The claim as stated speaks of the arithmetic mean. The neighbours of the paper
  "rounding" have the scores 0.6 and 0.8: their arithmetic mean is greater than 0.7,
  their float64 sum is rounded down, the computed mean is the float64 number 0.7 and
  the paper is not publishable.
\<close>

theorem publishable_iff_mean_counterexample:
  "query (example_services ''graph mining at scale'') [] (paper ''rounding'' None None)
     = Inr neighbours_rounding
   \<and> spec_publishable_scores neighbours_rounding = [float_0_6, float_0_8]
   \<and> spec_avg_publishable_score neighbours_rounding > 0.7
   \<and> spec_avg_publishable_score neighbours_rounding > float_0_7
   \<and> classify_paper (example_services ''graph mining at scale'') [] (paper ''rounding'' None None)
     = Inr \<lparr>paper_id = ''rounding'', publishable = 0, conference = ''na'', rationale = ''na'',
            confidence_scores = [(''publishability'', float_0_7)]\<rparr>"
  by code_simp

text \<open>
  Claim C2, amended. Once the reference papers are indexed, \<open>classify_papers\<close> returns one
  record per input paper, in input order, whatever happens inside the \<open>try\<close> block of a
  paper: the record of a paper whose scoring or rationale generation raised \<open>e\<close> has
  conference "error", rationale \<open>str(e)\<close> and no confidence score, and the papers after
  it are still processed. An exception of the indexing request, which is made before the
  loop and outside the \<open>try\<close> block, leaves the method without any record.
\<close>

theorem classify_papers_one_record_per_paper:
  assumes "add_documents srv (vector_store self) refs = Inr store'"
  shows "\<exists>results. classify_papers srv self refs papers
                      = Inr (results, self\<lparr>vector_store := store'\<rparr>)
          \<and> length results = length papers
          \<and> (\<forall>i < length papers.
               paper_id (results ! i) = stem (Paper.path (papers ! i))
             \<and> (\<forall>e. classify_paper srv store' (papers ! i) = Inl e \<longrightarrow>
                     results ! i = \<lparr>paper_id = stem (Paper.path (papers ! i)), publishable = 0,
                                    conference = ''error'', rationale = str_exc e,
                                    confidence_scores = []\<rparr>)
             \<and> (\<forall>r. classify_paper srv store' (papers ! i) = Inr r \<longrightarrow> results ! i = r))"
proof -
  let ?results = "map (classify_one srv store') papers"
  have "\<forall>i < length papers.
               paper_id (?results ! i) = stem (Paper.path (papers ! i))
             \<and> (\<forall>e. classify_paper srv store' (papers ! i) = Inl e \<longrightarrow>
                     ?results ! i = \<lparr>paper_id = stem (Paper.path (papers ! i)), publishable = 0,
                                    conference = ''error'', rationale = str_exc e,
                                    confidence_scores = []\<rparr>)
             \<and> (\<forall>r. classify_paper srv store' (papers ! i) = Inr r \<longrightarrow> ?results ! i = r)"
    by (simp add: classify_one_paper_id) (simp add: classify_one_def)
  with classify_papers_Inr[OF assms, of papers] show ?thesis by simp
qed

theorem classify_papers_one_record_per_paper_witness:
  "add_documents (example_services ''graph mining at scale'') (vector_store (classifier [])) []
     = Inr []
   \<and> classify_papers (example_services ''graph mining at scale'') (classifier []) []
        [paper ''weak'' None None, paper ''bad'' None None, paper ''p3'' None None]
     = Inr ([\<lparr>paper_id = ''weak'', publishable = 0, conference = ''na'', rationale = ''na'',
               confidence_scores = [(''publishability'', 0)]\<rparr>,
             \<lparr>paper_id = ''bad'', publishable = 0, conference = ''error'',
               rationale = ''connection refused'', confidence_scores = []\<rparr>,
             \<lparr>paper_id = ''p3'', publishable = 1, conference = ''CVPR'',
               rationale = ''This paper is relevant to CVPR because graph mining at scale'',
               confidence_scores = [(''publishability'', 7 / 8), (''conference'', 7 / 8)]\<rparr>],
            classifier [])"
proof -
  let ?srv = "example_services ''graph mining at scale''"
  let ?papers = "[paper ''weak'' None None, paper ''bad'' None None, paper ''p3'' None None]"
  have h: "add_documents ?srv (vector_store (classifier [])) [] = Inr []" by code_simp
  have e: "classify_papers ?srv (classifier []) [] ?papers
     = Inr ([\<lparr>paper_id = ''weak'', publishable = 0, conference = ''na'', rationale = ''na'',
               confidence_scores = [(''publishability'', 0)]\<rparr>,
             \<lparr>paper_id = ''bad'', publishable = 0, conference = ''error'',
               rationale = ''connection refused'', confidence_scores = []\<rparr>,
             \<lparr>paper_id = ''p3'', publishable = 1, conference = ''CVPR'',
               rationale = ''This paper is relevant to CVPR because graph mining at scale'',
               confidence_scores = [(''publishability'', 7 / 8), (''conference'', 7 / 8)]\<rparr>],
            classifier [])" by code_simp
  from classify_papers_one_record_per_paper[OF h, of ?papers] h e show ?thesis by simp
qed

text \<open>
  The claim as stated promises the records for every input list. When the vector store
  refuses the indexing request, \<open>classify_papers\<close> raises and returns no record at all.
\<close>

theorem classify_papers_counterexample:
  "classify_papers (refusing_services ''graph mining at scale'') (classifier []) []
        [paper ''p1'' None None, paper ''p2'' None None]
     = Inl (ExternalError ''index unavailable'')"
  by code_simp

text \<open>
  Claim C3, amended. Every record returned by \<open>classify_papers\<close> satisfies: a conference
  other than "na" and "error" implies publishable; the conference "error" implies not
  publishable; the rationale "na" implies not publishable.
\<close>

theorem result_invariant_amended:
  assumes "classify_papers srv self refs papers = Inr (results, self')" and "r \<in> set results"
  shows "(Result.conference r \<noteq> ''na'' \<and> Result.conference r \<noteq> ''error'' \<longrightarrow> publishable r = 1)
       \<and> (Result.conference r = ''error'' \<longrightarrow> publishable r = 0)
       \<and> (rationale r = ''na'' \<longrightarrow> publishable r = 0)"
proof -
  from assms(1) obtain store' where "results = classify_loop srv store' papers []"
    by (auto simp: classify_papers_def split: sum.splits)
  with assms(2) obtain p where r: "r = classify_one srv store' p"
    by (auto simp: classify_loop_map)
  show ?thesis
  proof (cases "classify_paper srv store' p")
    case (Inl e)
    with r show ?thesis by (simp add: classify_one_def)
  next
    case (Inr r')
    with r have "r = r'" by (simp add: classify_one_def)
    with classify_paper_invariant[OF Inr] show ?thesis by (auto simp: conferences_def)
  qed
qed

theorem result_invariant_amended_witness:
  "classify_papers (example_services ''graph mining at scale'') (classifier []) []
        [paper ''weak'' None None, paper ''bad'' None None, paper ''p3'' None None]
     = Inr ([\<lparr>paper_id = ''weak'', publishable = 0, conference = ''na'', rationale = ''na'',
               confidence_scores = [(''publishability'', 0)]\<rparr>,
             \<lparr>paper_id = ''bad'', publishable = 0, conference = ''error'',
               rationale = ''connection refused'', confidence_scores = []\<rparr>,
             \<lparr>paper_id = ''p3'', publishable = 1, conference = ''CVPR'',
               rationale = ''This paper is relevant to CVPR because graph mining at scale'',
               confidence_scores = [(''publishability'', 7 / 8), (''conference'', 7 / 8)]\<rparr>],
            classifier [])
   \<and> Result.conference \<lparr>paper_id = ''p3'', publishable = 1, conference = ''CVPR'',
               rationale = ''This paper is relevant to CVPR because graph mining at scale'',
               confidence_scores = [(''publishability'', 7 / 8), (''conference'', 7 / 8)]\<rparr> \<noteq> ''na''
   \<and> Result.conference \<lparr>paper_id = ''p3'', publishable = 1, conference = ''CVPR'',
               rationale = ''This paper is relevant to CVPR because graph mining at scale'',
               confidence_scores = [(''publishability'', 7 / 8), (''conference'', 7 / 8)]\<rparr> \<noteq> ''error''
   \<and> publishable \<lparr>paper_id = ''p3'', publishable = 1, conference = ''CVPR'',
               rationale = ''This paper is relevant to CVPR because graph mining at scale'',
               confidence_scores = [(''publishability'', 7 / 8), (''conference'', 7 / 8)]\<rparr> = 1
   \<and> rationale \<lparr>paper_id = ''weak'', publishable = 0, conference = ''na'', rationale = ''na'',
               confidence_scores = [(''publishability'', 0)]\<rparr> = ''na''
   \<and> publishable \<lparr>paper_id = ''weak'', publishable = 0, conference = ''na'', rationale = ''na'',
               confidence_scores = [(''publishability'', 0)]\<rparr> = 0"
proof -
  let ?srv = "example_services ''graph mining at scale''"
  let ?papers = "[paper ''weak'' None None, paper ''bad'' None None, paper ''p3'' None None]"
  let ?r1 = "\<lparr>paper_id = ''weak'', publishable = 0, conference = ''na'', rationale = ''na'',
               confidence_scores = [(''publishability'', 0::real)]\<rparr>"
  let ?r2 = "\<lparr>paper_id = ''bad'', publishable = 0, conference = ''error'',
               rationale = ''connection refused'', confidence_scores = ([]::(string \<times> real) list)\<rparr>"
  let ?r3 = "\<lparr>paper_id = ''p3'', publishable = 1, conference = ''CVPR'',
               rationale = ''This paper is relevant to CVPR because graph mining at scale'',
               confidence_scores = [(''publishability'', 7 / 8 :: real), (''conference'', 7 / 8)]\<rparr>"
  have e: "classify_papers ?srv (classifier []) [] ?papers = Inr ([?r1, ?r2, ?r3], classifier [])"
    by code_simp
  have m1: "?r1 \<in> set [?r1, ?r2, ?r3]" and m3: "?r3 \<in> set [?r1, ?r2, ?r3]" by simp_all
  from result_invariant_amended[OF e m1] result_invariant_amended[OF e m3] e
  show ?thesis by simp
qed

theorem result_invariant_counterexample:
  "classify_papers (example_services ''graph mining at scale'') (classifier []) []
        [paper ''bad'' None None]
     = Inr ([\<lparr>paper_id = ''bad'', publishable = 0, conference = ''error'',
               rationale = ''connection refused'', confidence_scores = []\<rparr>],
            classifier [])
   \<and> Result.conference \<lparr>paper_id = ''bad'', publishable = 0, conference = ''error'',
               rationale = ''connection refused'', confidence_scores = []\<rparr> \<noteq> ''na''
   \<and> publishable \<lparr>paper_id = ''bad'', publishable = 0, conference = ''error'',
               rationale = ''connection refused'', confidence_scores = []\<rparr> \<noteq> 1"
  by code_simp

text \<open>
  Claim C4, amended. For a publishable paper the conference of the record is the first
  one, in the order TMLR, CVPR, EMNLP, NeurIPS, KDD, whose mean score as \<open>np.mean\<close>
  returns it (0 for a conference without scores) is the largest: no conference has a
  larger computed mean and every conference listed before it has a strictly smaller
  one. When the five computed means are all 0 it is TMLR.
\<close>

theorem best_conference_first_maximum:
  assumes "query srv store p = Inr ns" and "classify_paper srv store p = Inr r"
    and "publishable r = 1"
  shows "(\<exists>i < length conferences. Result.conference r = conferences ! i
            \<and> (\<forall>j < length conferences.
                  computed_conference_mean (np_mean srv) ns (conferences ! j)
                    \<le> computed_conference_mean (np_mean srv) ns (conferences ! i))
            \<and> (\<forall>j < i.
                  computed_conference_mean (np_mean srv) ns (conferences ! j)
                    < computed_conference_mean (np_mean srv) ns (conferences ! i)))
       \<and> ((\<forall>c \<in> set conferences. computed_conference_mean (np_mean srv) ns c = 0)
            \<longrightarrow> Result.conference r = ''TMLR'')"
proof -
  let ?m = "computed_conference_mean (np_mean srv) ns"
  from classify_paper_Inr[OF assms(2,1)] assms(3) obtain best where
    b: "py_max snd (map (\<lambda>c. (c, ?m c)) conferences) = Inr best" and
    r: "Result.conference r = fst best"
    by (auto split: if_splits)
  from py_max_first[OF b] obtain i where i: "i < length conferences"
    and best: "best = (conferences ! i, ?m (conferences ! i))"
    and le: "\<forall>j < length conferences. ?m (conferences ! j) \<le> ?m (conferences ! i)"
    and lt: "\<forall>j < i. ?m (conferences ! j) < ?m (conferences ! i)"
    by auto
  have first: "\<exists>i < length conferences. Result.conference r = conferences ! i
            \<and> (\<forall>j < length conferences. ?m (conferences ! j) \<le> ?m (conferences ! i))
            \<and> (\<forall>j < i. ?m (conferences ! j) < ?m (conferences ! i))"
    using i best le lt r by auto
  have "Result.conference r = ''TMLR''" if z: "\<forall>c \<in> set conferences. ?m c = 0"
  proof -
    have "i = 0"
    proof (rule ccontr)
      assume "i \<noteq> 0"
      then have "0 < i" by simp
      with lt have "?m (conferences ! 0) < ?m (conferences ! i)" by blast
      moreover have "conferences ! 0 \<in> set conferences" "conferences ! i \<in> set conferences"
        using i by (auto intro!: nth_mem)
      ultimately show False using z by simp
    qed
    with r best show ?thesis by (simp add: conferences_def)
  qed
  with first show ?thesis by blast
qed

theorem best_conference_first_maximum_witness:
  "classify_paper (example_services ''graph mining at scale'') [] (paper ''p1'' None None)
     = Inr \<lparr>paper_id = ''p1'', publishable = 1, conference = ''CVPR'',
            rationale = ''This paper is relevant to CVPR because graph mining at scale'',
            confidence_scores = [(''publishability'', 7 / 8), (''conference'', 7 / 8)]\<rparr>
   \<and> computed_conference_mean float64_mean neighbours_tie ''CVPR'' = 7 / 8
   \<and> computed_conference_mean float64_mean neighbours_tie ''EMNLP'' = 7 / 8
   \<and> classify_paper (example_services ''short'') [] (paper ''untagged'' None None)
     = Inr \<lparr>paper_id = ''untagged'', publishable = 1, conference = ''TMLR'',
            rationale = ''This paper appears relevant to TMLR based on its focus on Graph mining'',
            confidence_scores = [(''publishability'', 7 / 8), (''conference'', 0)]\<rparr>
   \<and> computed_conference_mean float64_mean neighbours_untagged ''TMLR'' = 0
   \<and> computed_conference_mean float64_mean neighbours_untagged ''CVPR'' = 0
   \<and> computed_conference_mean float64_mean neighbours_untagged ''EMNLP'' = 0
   \<and> computed_conference_mean float64_mean neighbours_untagged ''NeurIPS'' = 0
   \<and> computed_conference_mean float64_mean neighbours_untagged ''KDD'' = 0"
proof -
  let ?r1 = "\<lparr>paper_id = ''p1'', publishable = 1, conference = ''CVPR'',
            rationale = ''This paper is relevant to CVPR because graph mining at scale'',
            confidence_scores = [(''publishability'', 7 / 8 :: real), (''conference'', 7 / 8)]\<rparr>"
  let ?r2 = "\<lparr>paper_id = ''untagged'', publishable = 1, conference = ''TMLR'',
            rationale = ''This paper appears relevant to TMLR based on its focus on Graph mining'',
            confidence_scores = [(''publishability'', 7 / 8 :: real), (''conference'', 0)]\<rparr>"
  have q1: "query (example_services ''graph mining at scale'') [] (paper ''p1'' None None)
              = Inr neighbours_tie" by code_simp
  have c1: "classify_paper (example_services ''graph mining at scale'') [] (paper ''p1'' None None)
              = Inr ?r1" by code_simp
  have q2: "query (example_services ''short'') [] (paper ''untagged'' None None)
              = Inr neighbours_untagged" by code_simp
  have c2: "classify_paper (example_services ''short'') [] (paper ''untagged'' None None)
              = Inr ?r2" by code_simp
  have p1: "publishable ?r1 = 1" and p2: "publishable ?r2 = 1" by simp_all
  have m: "computed_conference_mean float64_mean neighbours_tie ''CVPR'' = 7 / 8"
          "computed_conference_mean float64_mean neighbours_tie ''EMNLP'' = 7 / 8" by code_simp+
  have z: "computed_conference_mean float64_mean neighbours_untagged ''TMLR'' = 0"
          "computed_conference_mean float64_mean neighbours_untagged ''CVPR'' = 0"
          "computed_conference_mean float64_mean neighbours_untagged ''EMNLP'' = 0"
          "computed_conference_mean float64_mean neighbours_untagged ''NeurIPS'' = 0"
          "computed_conference_mean float64_mean neighbours_untagged ''KDD'' = 0" by code_simp+
  from best_conference_first_maximum[OF q1 c1 p1] best_conference_first_maximum[OF q2 c2 p2]
       c1 c2 m z
  show ?thesis by simp
qed

text \<open>
  The claim as stated speaks of the maximum mean. The neighbours of the paper
  "rounding_tie" give TMLR the scores 1 and the largest float64 number below 1, and CVPR
  the score 1. The arithmetic mean of CVPR is the larger one; the float64 sum of the two
  TMLR scores is rounded up to 2, both computed means are 1, and the record names TMLR.
\<close>

theorem best_conference_counterexample:
  "query (example_services ''graph mining at scale'') [] (paper ''rounding_tie'' None None)
     = Inr neighbours_rounding_tie
   \<and> spec_conference_scores neighbours_rounding_tie ''TMLR'' = [1, float_below_1]
   \<and> spec_conference_scores neighbours_rounding_tie ''CVPR'' = [1]
   \<and> spec_conference_mean neighbours_rounding_tie ''TMLR''
       < spec_conference_mean neighbours_rounding_tie ''CVPR''
   \<and> classify_paper (example_services ''graph mining at scale'') []
        (paper ''rounding_tie'' None None)
     = Inr \<lparr>paper_id = ''rounding_tie'', publishable = 1, conference = ''TMLR'',
            rationale = ''This paper is relevant to TMLR because graph mining at scale'',
            confidence_scores = [(''publishability'', 1), (''conference'', 1)]\<rparr>"
  by code_simp

section \<open>Properties of the metrics\<close>

lemma spec_precision_nonneg: "0 \<le> spec_precision tp fp"
  by (simp add: spec_precision_def)

lemma spec_recall_nonneg: "0 \<le> spec_recall tp fn"
  by (simp add: spec_recall_def)

lemma derive_metrics_zero: "derive_metrics counters 0 = Inl ZeroDivisionError"
  by (cases counters) (simp add: derive_metrics_def truediv_def)

lemma guarded_precision:
  "(if tp + fp > 0 then truediv (real tp) (real (tp + fp)) else Inr 0) = Inr (spec_precision tp fp)"
  by (simp add: truediv_def spec_precision_def)

lemma guarded_recall:
  "(if tp + fn > 0 then truediv (real tp) (real (tp + fn)) else Inr 0) = Inr (spec_recall tp fn)"
  by (simp add: truediv_def spec_recall_def)

lemma guarded_f1:
  assumes "0 \<le> p" "0 \<le> r"
  shows "(if p + r > 0 then truediv (2 * (p * r)) (p + r) else Inr 0) = Inr (spec_f1 p r)"
proof (cases "p + r > 0")
  case True
  with assms have "\<not> (p = 0 \<and> r = 0)" "p + r \<noteq> 0" by auto
  with True show ?thesis by (simp add: truediv_def spec_f1_def)
next
  case False
  with assms have "p = 0 \<and> r = 0" by auto
  then show ?thesis by (simp add: spec_f1_def)
qed

lemma guarded_conference_accuracy:
  "(if tot > 0 then truediv (real cc) (real tot) else Inr 0)
     = Inr (if tot = 0 then 0 else real cc / real tot)"
  by (simp add: truediv_def)

lemma derive_metrics_pos:
  assumes "0 < n"
  shows "derive_metrics counters n = Inr (spec_metrics counters n)"
proof -
  obtain tp fp tn fn cc tot where c: "counters = (tp, fp, tn, fn, cc, tot)"
    by (cases counters) auto
  have a: "truediv (real (tp + tn)) (real n) = Inr (real (tp + tn) / real n)"
    using assms by (simp add: truediv_def)
  show ?thesis
    unfolding c derive_metrics_def spec_metrics_def prod.case a sum.case
      guarded_precision[of tp fp] guarded_recall[of tp fn]
      guarded_f1[OF spec_precision_nonneg[of tp fp] spec_recall_nonneg[of tp fn]]
      guarded_conference_accuracy[of tot cc]
    by (rule refl)
qed

lemma calculate_metrics_Inr:
  assumes "add_documents srv (vector_store self) (reference_papers self) = Inr store'"
  shows "calculate_metrics srv self validation_papers =
     (case derive_metrics
             (count_loop (zip validation_papers (map (classify_one srv store') validation_papers))
                (0, 0, 0, 0, 0, 0))
             (length validation_papers) of
        Inl e \<Rightarrow> Inl e
      | Inr m \<Rightarrow> Inr (m, self\<lparr>vector_store := store'\<rparr>))"
  by (simp add: calculate_metrics_def classify_papers_Inr[OF assms])


section \<open>Division by zero in the metrics\<close>

text \<open>
  Claim C10. \<open>calculate_metrics\<close> needs a non-empty validation list. Once the reference
  papers are indexed, an empty list makes the unguarded accuracy division raise
  \<open>ZeroDivisionError\<close>; for a non-empty list no division raises, the guarded divisions
  of precision, recall, F1 and conference accuracy giving 0 where their denominator is
  0, and the result is the metrics of the specification.
\<close>

theorem calculate_metrics_empty_validation:
  assumes "add_documents srv (vector_store self) (reference_papers self) = Inr store'"
  shows "(validation_papers = [] \<longrightarrow>
            calculate_metrics srv self validation_papers = Inl ZeroDivisionError)
       \<and> (validation_papers \<noteq> [] \<longrightarrow>
            calculate_metrics srv self validation_papers =
              Inr (spec_metrics
                     (count_loop
                        (zip validation_papers (map (classify_one srv store') validation_papers))
                        (0, 0, 0, 0, 0, 0))
                     (length validation_papers),
                   self\<lparr>vector_store := store'\<rparr>))"
  by (simp add: calculate_metrics_Inr[OF assms] derive_metrics_zero derive_metrics_pos)

theorem calculate_metrics_empty_validation_witness:
  "add_documents (example_services ''graph mining at scale'') (vector_store (classifier []))
       (reference_papers (classifier [])) = Inr []
   \<and> calculate_metrics (example_services ''graph mining at scale'') (classifier []) []
       = Inl ZeroDivisionError
   \<and> calculate_metrics (example_services ''graph mining at scale'') (classifier [])
         [paper ''weak'' (Some ''NonPublishable'') None]
       = Inr (\<lparr>Metrics.accuracy = 1, precision = 0, recall = 0, Metrics.f1_score = 0,
               Metrics.conference_accuracy = 0,
               metrics_detail = \<lparr>true_positives = 0, false_positives = 0, true_negatives = 1,
                                 false_negatives = 0, total_papers = 1\<rparr>\<rparr>,
              classifier [])"
proof -
  let ?srv = "example_services ''graph mining at scale''"
  have h: "add_documents ?srv (vector_store (classifier [])) (reference_papers (classifier []))
             = Inr []" by code_simp
  have e: "calculate_metrics ?srv (classifier []) [paper ''weak'' (Some ''NonPublishable'') None]
       = Inr (\<lparr>Metrics.accuracy = 1, precision = 0, recall = 0, Metrics.f1_score = 0,
               Metrics.conference_accuracy = 0,
               metrics_detail = \<lparr>true_positives = 0, false_positives = 0, true_negatives = 1,
                                 false_negatives = 0, total_papers = 1\<rparr>\<rparr>,
              classifier [])" by code_simp
  from calculate_metrics_empty_validation[OF h, of "[]"] h e show ?thesis by simp
qed

text \<open>
  Claim C5. The claim promises the derived metrics for every validation set without a
  division-by-zero fault. On the empty validation set the source raises
  \<open>ZeroDivisionError\<close> in the accuracy, the one division it does not guard.
\<close>

theorem calculate_metrics_empty_raises:
  "calculate_metrics (example_services ''graph mining at scale'') (classifier []) []
     = Inl ZeroDivisionError"
  by code_simp

section \<open>The rationale\<close>

lemma unique_answers_subset: "set (unique_answers as) \<subseteq> set as"
  using dedup_loop_set[of as "[]"] by (simp add: unique_answers_def)

text \<open>
  Claim C6, amended. The similarity test is applied only when both strings have at
  least 10 characters: a string shorter than 10 is similar to nothing. Two answers of at
  least 10 characters whose positional match ratio (matching positions of the zipped
  lower-case strings over the longer length) is strictly greater than 0.7 collapse to
  the first of them, and no two entries of the deduplicated list, from which the
  rationale is joined, have such a ratio.
\<close>

theorem similar_answers_collapse:
  "(length a < 10 \<or> length b < 10 \<longrightarrow> \<not> similar_strings a b threshold)
   \<and> (10 \<le> length a \<and> 10 \<le> length b
        \<and> real (common b a) / real (max (length b) (length a)) > 0.7
        \<longrightarrow> unique_answers [a, b] = [a])
   \<and> (\<forall>q < length (unique_answers answers). \<forall>p < q.
         \<not> (10 \<le> length (unique_answers answers ! p) \<and> 10 \<le> length (unique_answers answers ! q)
            \<and> real (common (unique_answers answers ! q) (unique_answers answers ! p))
                / real (max (length (unique_answers answers ! q)) (length (unique_answers answers ! p)))
                > 0.7))"
proof (intro conjI impI allI)
  assume "length a < 10 \<or> length b < 10"
  then show "\<not> similar_strings a b threshold" by (rule similar_strings_short)
next
  assume h: "10 \<le> length a \<and> 10 \<le> length b
        \<and> real (common b a) / real (max (length b) (length a)) > 0.7"
  then have "similar_strings b a default_threshold"
    by (simp add: similar_strings_ratio default_threshold_def)
  then show "unique_answers [a, b] = [a]" by (simp add: unique_answers_pair)
next
  fix q p assume q: "q < length (unique_answers answers)" and p: "p < q"
  let ?u = "unique_answers answers"
  show "\<not> (10 \<le> length (?u ! p) \<and> 10 \<le> length (?u ! q)
            \<and> real (common (?u ! q) (?u ! p)) / real (max (length (?u ! q)) (length (?u ! p))) > 0.7)"
  proof
    assume a: "10 \<le> length (?u ! p) \<and> 10 \<le> length (?u ! q)
            \<and> real (common (?u ! q) (?u ! p)) / real (max (length (?u ! q)) (length (?u ! p))) > 0.7"
    then have "similar_strings (?u ! q) (?u ! p) default_threshold"
      by (simp add: similar_strings_ratio default_threshold_def)
    with unique_answers_pairwise[OF q p] show False by simp
  qed
qed

theorem similar_answers_collapse_witness:
  "10 \<le> length ''graph mining at scale'' \<and> 10 \<le> length ''graph mining on scale''
   \<and> real (common ''graph mining on scale'' ''graph mining at scale'')
        / real (max (length ''graph mining on scale'') (length ''graph mining at scale'')) > 0.7
   \<and> unique_answers [''graph mining at scale'', ''graph mining on scale'']
        = [''graph mining at scale'']
   \<and> \<not> similar_strings ''too short'' ''graph mining at scale'' 0.7
   \<and> unique_answers [''graph mining at scale'', ''graph mining on scale'',
                        ''mining of very large graphs'']
        = [''graph mining at scale'', ''mining of very large graphs'']"
proof -
  have l: "10 \<le> length ''graph mining at scale'' \<and> 10 \<le> length ''graph mining on scale''
     \<and> real (common ''graph mining on scale'' ''graph mining at scale'')
        / real (max (length ''graph mining on scale'') (length ''graph mining at scale'')) > 0.7"
    by code_simp
  have s: "length ''too short'' < 10 \<or> length ''graph mining at scale'' < 10" by simp
  have u: "unique_answers [''graph mining at scale'', ''graph mining on scale'',
                        ''mining of very large graphs'']
        = [''graph mining at scale'', ''mining of very large graphs'']" by code_simp
  from similar_answers_collapse[of "''graph mining at scale''" "''graph mining on scale''" "0.7" "[]"]
       similar_answers_collapse[of "''too short''" "''graph mining at scale''" "0.7" "[]"]
       l s u
  show ?thesis by simp
qed

theorem similar_answers_counterexample:
  "10 \<le> length ''aaaaaaaaaaaaaaaaaaaa'' \<and> 10 \<le> length ''aaaaaaaaaaaaaabbbbbb''
   \<and> real (common ''aaaaaaaaaaaaaaaaaaaa'' ''aaaaaaaaaaaaaabbbbbb'')
        / real (max (length ''aaaaaaaaaaaaaaaaaaaa'') (length ''aaaaaaaaaaaaaabbbbbb'')) \<ge> 0.7
   \<and> generate_rationale
         (three_answers_qa ''aaaaaaaaaaaaaaaaaaaa'' ''aaaaaaaaaaaaaabbbbbb'' ''short'')
         (content (paper ''p1'' None None)) ''KDD''
       = Inr ''This paper is relevant to KDD because aaaaaaaaaaaaaaaaaaaa. aaaaaaaaaaaaaabbbbbb''"
  by code_simp

text \<open>
  Claim C7, amended. When every question is answered, the kept answers are the trimmed
  answers whose trimmed length is strictly greater than 10. If one is kept, the
  rationale is "This paper is relevant to {conference} because " followed by the first
  two (or the only one) of the deduplicated kept answers joined with ". ", and the
  deduplication never removes every answer; if none is kept, the rationale is "This
  paper appears relevant to {conference} based on its focus on {title}", the title being
  the text before the first period of the preview.
\<close>

theorem generate_rationale_answers:
  fixes paper_content conf info :: string
    and model :: qa_model
    and raw :: "string \<Rightarrow> string \<Rightarrow> string"
  assumes conf: "map_of conference_contexts conf = Some info"
    and model: "\<And>q c. model q c = Inr (raw q c)"
  defines "preview \<equiv> strip (replace (CHR 0x0A) (CHR '' '') (take 1000 paper_content))"
  defines "title \<equiv> takeWhile (\<lambda>c. c \<noteq> CHR ''.'') preview"
  defines "ctx \<equiv> make_context title (snd (title_abstract preview)) info"
  defines "kept \<equiv> filter (\<lambda>a. length a > 10) (map (\<lambda>q. strip (raw q ctx)) (questions conf))"
  shows "generate_rationale model paper_content conf =
           Inr (if kept \<noteq> []
                then ''This paper is relevant to '' @ conf @ '' because ''
                     @ join ''. '' (take 2 (unique_answers kept))
                else ''This paper appears relevant to '' @ conf
                     @ '' based on its focus on '' @ title)
       \<and> (unique_answers kept = [] \<longleftrightarrow> kept = [])
       \<and> length (take 2 (unique_answers kept)) \<le> 2
       \<and> set (take 2 (unique_answers kept)) \<subseteq> set kept"
proof -
  have qa': "model = (\<lambda>q c. Inr (raw q c))" using model by (intro ext) simp
  have ta: "title_abstract preview = (title, snd (title_abstract preview))"
    using title_is_prefix[of preview] by (simp add: title_def prod_eq_iff)
  have al: "answer_loop model ctx (questions conf) [] = Inr kept"
    unfolding qa' answer_loop_total kept_def by simp
  have "generate_rationale model paper_content conf =
           Inr (if kept \<noteq> []
                then ''This paper is relevant to '' @ conf @ '' because ''
                     @ join ''. '' (take 2 (unique_answers kept))
                else ''This paper appears relevant to '' @ conf
                     @ '' based on its focus on '' @ title)"
    unfolding generate_rationale_def Let_def preview_def[symmetric]
    by (subst ta) (simp only: prod.case conf option.case ctx_def[symmetric] al sum.case if_distrib[of Inr])
  moreover have "set (take 2 (unique_answers kept)) \<subseteq> set kept"
    using set_take_subset[of 2 "unique_answers kept"] unique_answers_subset[of kept] by blast
  ultimately show ?thesis by (simp add: unique_answers_Nil_iff)
qed

theorem generate_rationale_answers_witness:
  "map_of conference_contexts ''KDD'' = Some (snd (conference_contexts ! 4))
   \<and> (\<forall>q c. three_answers_qa ''  graph mining at scale '' ''too short''
                 ''mining of very large graphs'' q c
               = Inr (three_answers ''  graph mining at scale '' ''too short''
                        ''mining of very large graphs'' q c))
   \<and> generate_rationale
         (three_answers_qa ''  graph mining at scale '' ''too short'' ''mining of very large graphs'')
         (content (paper ''p1'' None None)) ''KDD''
       = Inr ''This paper is relevant to KDD because graph mining at scale. mining of very large graphs''
   \<and> generate_rationale
         (three_answers_qa ''too short'' ''  a bit long '' [])
         (content (paper ''p1'' None None)) ''KDD''
       = Inr ''This paper appears relevant to KDD based on its focus on Graph mining''"
proof -
  have h: "map_of conference_contexts ''KDD'' = Some (snd (conference_contexts ! 4))" by code_simp
  have m1: "\<And>q c. three_answers_qa ''  graph mining at scale '' ''too short''
                 ''mining of very large graphs'' q c
               = Inr (three_answers ''  graph mining at scale '' ''too short''
                        ''mining of very large graphs'' q c)"
    by (simp add: three_answers_qa_def)
  have m2: "\<And>q c. three_answers_qa ''too short'' ''  a bit long '' [] q c
               = Inr (three_answers ''too short'' ''  a bit long '' [] q c)"
    by (simp add: three_answers_qa_def)
  have e1: "generate_rationale
         (three_answers_qa ''  graph mining at scale '' ''too short'' ''mining of very large graphs'')
         (content (paper ''p1'' None None)) ''KDD''
       = Inr ''This paper is relevant to KDD because graph mining at scale. mining of very large graphs''"
    by code_simp
  have e2: "generate_rationale
         (three_answers_qa ''too short'' ''  a bit long '' [])
         (content (paper ''p1'' None None)) ''KDD''
       = Inr ''This paper appears relevant to KDD based on its focus on Graph mining''"
    by code_simp
  from generate_rationale_answers[where paper_content = "content (paper ''p1'' None None)", OF h m1]
       generate_rationale_answers[where paper_content = "content (paper ''p1'' None None)", OF h m2]
       h m1 e1 e2
  show ?thesis by simp
qed

theorem generate_rationale_counterexample:
  "length (strip ''  graph data '') = 10
   \<and> generate_rationale (const_qa ''  graph data '') (content (paper ''p1'' None None)) ''KDD''
       = Inr ''This paper appears relevant to KDD based on its focus on Graph mining''"
  by code_simp

section \<open>Properties of the folds\<close>












section \<open>Cross-validation returns one record per fold\<close>




end
